theory Spec2Isabelle
  imports Main "HOL-Library.Monad_Syntax"
begin

section \<open>Values, severities and errors\<close>

text \<open>
  A Python \<open>str\<close> is a sequence of Unicode code points; it is modelled as the list of
  the code points' numbers. \<open>ascii\<close> turns an ASCII literal into such a list.
\<close>

type_synonym pystr = "nat list"

definition ascii :: "string \<Rightarrow> pystr" where
  "ascii s = map of_char s"

text \<open>\<open>class Level(Enum)\<close>: five members, numbered by \<open>auto()\<close> from 1.\<close>

datatype Level = Error | Warning | Log | Info | Debug

fun Level_value :: "Level \<Rightarrow> int" where
  "Level_value Error = 1"
| "Level_value Warning = 2"
| "Level_value Log = 3"
| "Level_value Info = 4"
| "Level_value Debug = 5"

fun Level_name :: "Level \<Rightarrow> pystr" where
  "Level_name Error = ascii ''Error''"
| "Level_name Warning = ascii ''Warning''"
| "Level_name Log = ascii ''Log''"
| "Level_name Info = ascii ''Info''"
| "Level_name Debug = ascii ''Debug''"

text \<open>
  \<open>str.lower()\<close>, on the ASCII letters (the only ones a member name of \<open>Level\<close> has);
  every other code point is left as it is.
\<close>

definition lower_cp :: "nat \<Rightarrow> nat" where
  "lower_cp c = (if 65 \<le> c \<and> c \<le> 90 then c + 32 else c)"

definition lower :: "pystr \<Rightarrow> pystr" where
  "lower s = map lower_cp s"

text \<open>
  The values that reach the logger's dynamically typed parameters: \<open>None\<close>, a \<open>str\<close>,
  a member of \<open>Level\<close>, an \<open>int\<close>.
\<close>

datatype pyval = PNone | PStr pystr | PLevel Level | PInt int

text \<open>
  The exceptions of the module. \<open>ValueError\<close> carries its argument, if it has one:
  \<open>raise ValueError\<close> is \<open>ValueError None\<close>. \<open>NoObject\<close> is not an exception of
  Python: it is the result of a method called on a reference that denotes no object of
  the store, which no Python program can do.
\<close>

datatype error =
    ValueError "pystr option"
  | AttributeError
  | IndexError
  | KeyError
  | TypeError
  | NotImplementedError
  | OSError
  | NoObject

text \<open>The dictionary literal of \<open>_ensure_level\<close>, in the order it is written.\<close>

definition level_names :: "(pystr \<times> Level) list" where
  "level_names =
     [(ascii ''error'', Error),
      (ascii ''warning'', Warning),
      (ascii ''log'', Log),
      (ascii ''info'', Info),
      (ascii ''debug'', Debug)]"

text \<open>
  \<open>_ensure_level(level)\<close>: a \<open>str\<close> is looked up in the dictionary, and the \<open>KeyError\<close>
  of a missing key becomes a \<open>ValueError\<close> with the message
  \<open>f"Invalid level name: {level}"\<close>; anything that is not a \<open>str\<close> is returned as it is.
\<close>

fun ensure_level :: "pyval \<Rightarrow> error + pyval" where
  "ensure_level (PStr name) =
     (case map_of level_names name of
        Some l \<Rightarrow> Inr (PLevel l)
      | None \<Rightarrow> Inl (ValueError (Some (ascii ''Invalid level name: '' @ name))))"
| "ensure_level v = Inr v"


section \<open>Records and formatters\<close>

text \<open>
  The time stamp of a record is \<open>dt.datetime.now().astimezone(dt.timezone.utc)\<close>: an
  aware \<open>datetime\<close> whose zone is UTC. Its fields are the calendar fields; the zone is
  always UTC and is not stored.
\<close>

record datetime =
  year :: nat
  month :: nat
  day :: nat
  hour :: nat
  minute :: nat
  second :: nat
  microsecond :: nat

text \<open>The decimal digits of a natural number, most significant first.\<close>

fun digits :: "nat \<Rightarrow> pystr" where
  "digits n = (if n < 10 then [48 + n] else digits (n div 10) @ [48 + n mod 10])"

declare digits.simps [simp del]

text \<open>\<open>"%0wd" % n\<close>: the digits of \<open>n\<close>, padded with zeros on the left to width \<open>w\<close>.\<close>

definition zpad :: "nat \<Rightarrow> nat \<Rightarrow> pystr" where
  "zpad w n = replicate (w - length (digits n)) 48 @ digits n"

text \<open>\<open>repr\<close> of an \<open>int\<close>.\<close>

definition repr_int :: "int \<Rightarrow> pystr" where
  "repr_int i = (if i < 0 then 45 # digits (nat (- i)) else digits (nat i))"

text \<open>
  \<open>datetime.isoformat(sep)\<close> of an aware UTC time: the date, the separator, the time
  of day, the microseconds when they are not zero, and the offset \<open>+00:00\<close>.
\<close>

definition isoformat_sep :: "nat \<Rightarrow> datetime \<Rightarrow> pystr" where
  "isoformat_sep sep t =
     zpad 4 (year t) @ ascii ''-'' @ zpad 2 (month t) @ ascii ''-'' @ zpad 2 (day t)
     @ [sep]
     @ zpad 2 (hour t) @ ascii '':'' @ zpad 2 (minute t) @ ascii '':'' @ zpad 2 (second t)
     @ (if microsecond t = 0 then [] else ascii ''.'' @ zpad 6 (microsecond t))
     @ ascii ''+00:00''"

definition isoformat :: "datetime \<Rightarrow> pystr" where
  "isoformat t = isoformat_sep 84 t"

text \<open>\<open>str\<close> of a \<open>datetime\<close> is \<open>isoformat(sep=" ")\<close>.\<close>

definition str_datetime :: "datetime \<Rightarrow> pystr" where
  "str_datetime t = isoformat_sep 32 t"

text \<open>
  The record of one call of \<open>log\<close>: the dictionary with the keys \<open>time\<close>, \<open>level\<close> and
  \<open>message\<close>, in this order. The level is whatever the caller passed.
\<close>

record log_record =
  r_time :: datetime
  r_level :: pyval
  r_message :: pyval

type_synonym formatter = "log_record \<Rightarrow> error + pystr"

subsection \<open>\<open>json.dumps(record, ensure_ascii=True)\<close>\<close>

definition hexdigit :: "nat \<Rightarrow> nat" where
  "hexdigit d = (if d < 10 then 48 + d else 87 + d)"

text \<open>\<open>'\\u{0:04x}'.format(n)\<close> for \<open>n < 0x10000\<close>.\<close>

definition u_escape :: "nat \<Rightarrow> pystr" where
  "u_escape n =
     [92, 117, hexdigit (n div 4096 mod 16), hexdigit (n div 256 mod 16),
      hexdigit (n div 16 mod 16), hexdigit (n mod 16)]"

text \<open>
  The replacement of one code point by the encoder for ASCII output: the backslash, the
  quote and everything outside \<open>' '\<close>..\<open>'~'\<close> are escaped; the short escapes
  of \<open>ESCAPE_DCT\<close> first, then \<open>\uXXXX\<close>, as a surrogate pair above the basic plane.
\<close>

definition escape_cp :: "nat \<Rightarrow> pystr" where
  "escape_cp c =
     (if c = 92 then [92, 92]
      else if c = 34 then [92, 34]
      else if 32 \<le> c \<and> c \<le> 126 then [c]
      else if c = 8 then [92, 98]
      else if c = 12 then [92, 102]
      else if c = 10 then [92, 110]
      else if c = 13 then [92, 114]
      else if c = 9 then [92, 116]
      else if c < 65536 then u_escape c
      else u_escape (55296 + (c - 65536) div 1024 mod 1024)
           @ u_escape (56320 + (c - 65536) mod 1024))"

definition encode_basestring_ascii :: "pystr \<Rightarrow> pystr" where
  "encode_basestring_ascii s = [34] @ concat (map escape_cp s) @ [34]"

text \<open>
  \<open>json.dumps\<close> of a value: a member of \<open>Level\<close> (a plain \<open>Enum\<close>) is not
  serializable and raises \<open>TypeError\<close>.
\<close>

fun json_dumps_val :: "pyval \<Rightarrow> error + pystr" where
  "json_dumps_val PNone = Inr (ascii ''null'')"
| "json_dumps_val (PStr s) = Inr (encode_basestring_ascii s)"
| "json_dumps_val (PInt i) = Inr (repr_int i)"
| "json_dumps_val (PLevel l) = Inl TypeError"

text \<open>
  \<open>json_formatter(record)\<close>: the copy of the record gets the ISO text of its time and
  the number of its level (\<open>AttributeError\<close> when the level has no \<open>value\<close>), and is
  dumped as an object with the separators \<open>", "\<close> and \<open>": "\<close>.
\<close>

definition json_formatter :: formatter where
  "json_formatter record =
     (let time = isoformat (r_time record) in
      case r_level record of
        PLevel l \<Rightarrow>
          (let level = Level_value l in
           case json_dumps_val (r_message record) of
             Inl e \<Rightarrow> Inl e
           | Inr message \<Rightarrow>
               Inr ([123] @ encode_basestring_ascii (ascii ''time'') @ ascii '': ''
                    @ encode_basestring_ascii time
                    @ ascii '', '' @ encode_basestring_ascii (ascii ''level'') @ ascii '': ''
                    @ repr_int level
                    @ ascii '', '' @ encode_basestring_ascii (ascii ''message'') @ ascii '': ''
                    @ message @ [125]))
      | _ \<Rightarrow> Inl AttributeError)"

subsection \<open>The console format\<close>

text \<open>The ANSI colour codes \<open>_colors\<close> and \<open>_reset\<close>; 27 is the escape character.\<close>

fun colors :: "Level \<Rightarrow> pystr" where
  "colors Error = 27 # ascii ''[31m''"
| "colors Warning = 27 # ascii ''[33m''"
| "colors Log = 27 # ascii ''[32m''"
| "colors Info = 27 # ascii ''[34m''"
| "colors Debug = 27 # ascii ''[35m''"

definition reset :: pystr where
  "reset = 27 # ascii ''[0m''"

text \<open>\<open>str\<close> of a value, as an f-string renders it.\<close>

fun str_val :: "pyval \<Rightarrow> pystr" where
  "str_val PNone = ascii ''None''"
| "str_val (PStr s) = s"
| "str_val (PInt i) = repr_int i"
| "str_val (PLevel l) = ascii ''Level.'' @ Level_name l"

text \<open>
  \<open>stdout_formatter(record)\<close>: \<open>_colors[level]\<close> raises \<open>KeyError\<close> for a level that
  is not a member of \<open>Level\<close>.
\<close>

definition stdout_formatter :: formatter where
  "stdout_formatter record =
     (let time = r_time record; level = r_level record; message = r_message record in
      case level of
        PLevel l \<Rightarrow>
          (let level_str = colors l @ lower (Level_name l) @ reset in
           Inr (str_datetime time @ ascii '' - '' @ level_str @ ascii '' - '' @ str_val message))
      | _ \<Rightarrow> Inl KeyError)"


section \<open>The logger\<close>

text \<open>
  An argument of \<open>*opaths\<close>: a \<open>str\<close>, a \<open>Path\<close>, or an open file object (named by its
  handle).
\<close>

datatype opath = OStr pystr | OPath pystr | OFile nat

text \<open>
  What the program does to the outside: \<open>open(path, "w")\<close> giving a file object,
  \<open>ofile.write(text)\<close>, and \<open>print(text)\<close>.
\<close>

datatype event = Open pystr nat | Write nat pystr | Print pystr

text \<open>The attributes of an object of class \<open>Log\<close>: \<open>self._file_levels\<close> and so on.\<close>

record Logger =
  self_file_levels :: "pyval list"
  self_levels :: "pyval list"
  self_stdout :: bool
  self_opaths :: "opath list"
  self_ofiles :: "nat list"
  self_formatter :: formatter
  self_stdout_formatter :: formatter

text \<open>
  The state of the program: the \<open>Log\<close> objects by reference, the module's global
  \<open>_LOG\<close> (a reference, or \<open>None\<close>), and the trace of what was opened, written and
  printed. \<open>fs_writable\<close> tells which paths \<open>open(path, "w")\<close> can open; \<open>next_ref\<close> and
  \<open>next_file\<close> name the next object and the next file object.
\<close>

record pystate =
  objs :: "nat \<rightharpoonup> Logger"
  next_ref :: nat
  LOG :: "nat option"
  out :: "event list"
  next_file :: nat
  fs_writable :: "pystr \<Rightarrow> bool"

text \<open>\<open>open(path, "w")\<close>: a new file object, or \<open>OSError\<close>.\<close>

definition open_w :: "pystr \<Rightarrow> pystate \<Rightarrow> (error + nat) \<times> pystate" where
  "open_w path s =
     (if fs_writable s path
      then (Inr (next_file s),
            s\<lparr>out := out s @ [Open path (next_file s)], next_file := Suc (next_file s)\<rparr>)
      else (Inl OSError, s))"

text \<open>
  The loop of \<open>__init__\<close> over \<open>self._opaths\<close>: a \<open>str\<close> is replaced by its \<open>Path\<close> and
  opened, a \<open>Path\<close> is opened, anything else is taken as a file object. The result is the
  final \<open>_opaths\<close> and \<open>_ofiles\<close>.
\<close>

fun open_all :: "opath list \<Rightarrow> pystate \<Rightarrow> (error + opath list \<times> nat list) \<times> pystate" where
  "open_all [] s = (Inr ([], []), s)"
| "open_all (opath # rest) s =
     (case (case opath of
              OStr p \<Rightarrow> (case open_w p s of
                           (Inl e, s1) \<Rightarrow> (Inl e, s1)
                         | (Inr f, s1) \<Rightarrow> (Inr (OPath p, f), s1))
            | OPath p \<Rightarrow> (case open_w p s of
                            (Inl e, s1) \<Rightarrow> (Inl e, s1)
                          | (Inr f, s1) \<Rightarrow> (Inr (OPath p, f), s1))
            | OFile f \<Rightarrow> (Inr (OFile f, f), s)) of
        (Inl e, s1) \<Rightarrow> (Inl e, s1)
      | (Inr (opath', f), s1) \<Rightarrow>
          (case open_all rest s1 of
             (Inl e, s2) \<Rightarrow> (Inl e, s2)
           | (Inr (opaths', ofiles), s2) \<Rightarrow> (Inr (opath' # opaths', f # ofiles), s2)))"

text \<open>
  \<open>Log(*opaths, file_level=Level.Log, formatter=json_formatter, stdout=True,
  stdout_level=None, stdout_formatter=stdout_formatter)\<close>. A keyword argument the
  caller leaves out is \<open>None\<close> here and takes the default of the signature. The new
  object is stored under a new reference, which is returned.
\<close>

definition Log_init ::
  "opath list \<Rightarrow> pyval option \<Rightarrow> formatter option \<Rightarrow> bool option \<Rightarrow> pyval option
     \<Rightarrow> formatter option \<Rightarrow> pystate \<Rightarrow> (error + nat) \<times> pystate" where
  "Log_init opaths file_level_kw formatter_kw stdout_kw stdout_level_kw stdout_formatter_kw s =
     (let file_level = (case file_level_kw of None \<Rightarrow> PLevel Log | Some v \<Rightarrow> v);
          formatter = (case formatter_kw of None \<Rightarrow> json_formatter | Some f \<Rightarrow> f);
          stdout = (case stdout_kw of None \<Rightarrow> True | Some b \<Rightarrow> b);
          stdout_level = (case stdout_level_kw of None \<Rightarrow> PNone | Some v \<Rightarrow> v);
          stdout_formatter' =
            (case stdout_formatter_kw of None \<Rightarrow> stdout_formatter | Some f \<Rightarrow> f)
      in case open_all opaths s of
           (Inl e, s1) \<Rightarrow> (Inl e, s1)
         | (Inr (opaths', ofiles), s1) \<Rightarrow>
             (let self = next_ref s1;
                  obj = \<lparr>self_file_levels = [file_level],
                         self_levels = (if stdout_level = PNone then [file_level]
                                        else [stdout_level]),
                         self_stdout = stdout,
                         self_opaths = opaths',
                         self_ofiles = ofiles,
                         self_formatter = formatter,
                         self_stdout_formatter = stdout_formatter'\<rparr>
              in (Inr self, s1\<lparr>objs := (objs s1)(self \<mapsto> obj), next_ref := Suc self\<rparr>)))"

text \<open>\<open>Log.set_global(self)\<close>: returns the previous value of \<open>_LOG\<close>.\<close>

definition Log_set_global :: "nat \<Rightarrow> pystate \<Rightarrow> nat option \<times> pystate" where
  "Log_set_global self s = (let prev = LOG s in (prev, s\<lparr>LOG := Some self\<rparr>))"

text \<open>
  \<open>Log.file_level(self, new_level=None)\<close>: with \<open>None\<close> it pops (\<open>ValueError\<close> when
  the stack has fewer than two entries) and returns the popped entry; otherwise it
  pushes \<open>_ensure_level(new_level)\<close> and returns \<open>None\<close>.
\<close>

definition Log_file_level :: "nat \<Rightarrow> pyval \<Rightarrow> pystate \<Rightarrow> (error + pyval) \<times> pystate" where
  "Log_file_level self new_level s =
     (case objs s self of
        None \<Rightarrow> (Inl NoObject, s)
      | Some lg \<Rightarrow>
          if new_level = PNone then
            if length (self_file_levels lg) < 2 then (Inl (ValueError None), s)
            else (Inr (last (self_file_levels lg)),
                  s\<lparr>objs := (objs s)(self \<mapsto>
                       lg\<lparr>self_file_levels := butlast (self_file_levels lg)\<rparr>)\<rparr>)
          else
            (case ensure_level new_level of
               Inl e \<Rightarrow> (Inl e, s)
             | Inr new_level' \<Rightarrow>
                 (Inr PNone,
                  s\<lparr>objs := (objs s)(self \<mapsto>
                       lg\<lparr>self_file_levels := self_file_levels lg @ [new_level']\<rparr>)\<rparr>)))"

text \<open>\<open>Log.level(self, new_level=None)\<close>: the same on the stack of the console.\<close>

definition Log_level :: "nat \<Rightarrow> pyval \<Rightarrow> pystate \<Rightarrow> (error + pyval) \<times> pystate" where
  "Log_level self new_level s =
     (case objs s self of
        None \<Rightarrow> (Inl NoObject, s)
      | Some lg \<Rightarrow>
          if new_level = PNone then
            if length (self_levels lg) < 2 then (Inl (ValueError None), s)
            else (Inr (last (self_levels lg)),
                  s\<lparr>objs := (objs s)(self \<mapsto> lg\<lparr>self_levels := butlast (self_levels lg)\<rparr>)\<rparr>)
          else
            (case ensure_level new_level of
               Inl e \<Rightarrow> (Inl e, s)
             | Inr new_level' \<Rightarrow>
                 (Inr PNone,
                  s\<lparr>objs := (objs s)(self \<mapsto>
                       lg\<lparr>self_levels := self_levels lg @ [new_level']\<rparr>)\<rparr>)))"

text \<open>\<open>xs[-1]\<close>: \<open>IndexError\<close> on the empty list.\<close>

definition getitem_last :: "'a list \<Rightarrow> error + 'a" where
  "getitem_last xs = (if xs = [] then Inl IndexError else Inr (last xs))"

text \<open>\<open>x.value\<close>: only a member of \<open>Level\<close> has the attribute.\<close>

fun value_attr :: "pyval \<Rightarrow> error + int" where
  "value_attr (PLevel l) = Inr (Level_value l)"
| "value_attr v = Inl AttributeError"

text \<open>\<open>self._stack[-1].value >= level.value\<close>, the left operand first.\<close>

definition admits :: "pyval list \<Rightarrow> pyval \<Rightarrow> error + bool" where
  "admits stack level =
     (case getitem_last stack of
        Inl e \<Rightarrow> Inl e
      | Inr current \<Rightarrow>
          (case value_attr current of
             Inl e \<Rightarrow> Inl e
           | Inr t \<Rightarrow>
               (case value_attr level of
                  Inl e \<Rightarrow> Inl e
                | Inr v \<Rightarrow> Inr (t \<ge> v))))"

text \<open>\<open>for ofile in self._ofiles: ofile.write(f"{record_str}\n")\<close>; 10 is the newline.\<close>

definition write_all :: "nat list \<Rightarrow> pystr \<Rightarrow> pystate \<Rightarrow> pystate" where
  "write_all ofiles record_str s =
     s\<lparr>out := out s @ map (\<lambda>ofile. Write ofile (record_str @ [10])) ofiles\<rparr>"

text \<open>The first \<open>if\<close> of \<open>Log.log\<close>: the files.\<close>

definition log_files :: "Logger \<Rightarrow> log_record \<Rightarrow> pystate \<Rightarrow> (error + unit) \<times> pystate" where
  "log_files lg record s =
     (case admits (self_file_levels lg) (r_level record) of
        Inl e \<Rightarrow> (Inl e, s)
      | Inr False \<Rightarrow> (Inr (), s)
      | Inr True \<Rightarrow>
          (case self_formatter lg record of
             Inl e \<Rightarrow> (Inl e, s)
           | Inr record_str \<Rightarrow> (Inr (), write_all (self_ofiles lg) record_str s)))"

text \<open>The second \<open>if\<close> of \<open>Log.log\<close>: the console; \<open>and\<close> does not look at the stack
  when \<open>self._stdout\<close> is false.\<close>

definition log_stdout :: "Logger \<Rightarrow> log_record \<Rightarrow> pystate \<Rightarrow> (error + unit) \<times> pystate" where
  "log_stdout lg record s =
     (if self_stdout lg then
        (case admits (self_levels lg) (r_level record) of
           Inl e \<Rightarrow> (Inl e, s)
         | Inr False \<Rightarrow> (Inr (), s)
         | Inr True \<Rightarrow>
             (case self_stdout_formatter lg record of
                Inl e \<Rightarrow> (Inl e, s)
              | Inr record_str \<Rightarrow> (Inr (), s\<lparr>out := out s @ [Print record_str]\<rparr>)))
      else (Inr (), s))"

text \<open>
  \<open>Log.log(self, message, level=Level.Log)\<close>; \<open>now\<close> is what
  \<open>dt.datetime.now().astimezone(dt.timezone.utc)\<close> returns at the call.
\<close>

definition Log_log :: "nat \<Rightarrow> pyval \<Rightarrow> pyval \<Rightarrow> datetime \<Rightarrow> pystate \<Rightarrow> (error + unit) \<times> pystate" where
  "Log_log self message level now s =
     (case objs s self of
        None \<Rightarrow> (Inl NoObject, s)
      | Some lg \<Rightarrow>
          (let record = \<lparr>r_time = now, r_level = level, r_message = message\<rparr> in
           case log_files lg record s of
             (Inl e, s1) \<Rightarrow> (Inl e, s1)
           | (Inr _, s1) \<Rightarrow> log_stdout lg record s1))"

definition Log_error :: "nat \<Rightarrow> pyval \<Rightarrow> datetime \<Rightarrow> pystate \<Rightarrow> (error + unit) \<times> pystate" where
  "Log_error self message now s = Log_log self message (PLevel Error) now s"

definition Log_warn :: "nat \<Rightarrow> pyval \<Rightarrow> datetime \<Rightarrow> pystate \<Rightarrow> (error + unit) \<times> pystate" where
  "Log_warn self message now s = Log_log self message (PLevel Warning) now s"

definition Log_info :: "nat \<Rightarrow> pyval \<Rightarrow> datetime \<Rightarrow> pystate \<Rightarrow> (error + unit) \<times> pystate" where
  "Log_info self message now s = Log_log self message (PLevel Info) now s"

definition Log_debug :: "nat \<Rightarrow> pyval \<Rightarrow> datetime \<Rightarrow> pystate \<Rightarrow> (error + unit) \<times> pystate" where
  "Log_debug self message now s = Log_log self message (PLevel Debug) now s"

definition Log_close :: "nat \<Rightarrow> pystate \<Rightarrow> (error + unit) \<times> pystate" where
  "Log_close self s = (Inl NotImplementedError, s)"

section \<open>The module's functions on the global logger\<close>

text \<open>
  \<open>file_level(level=None)\<close> and \<open>level(level=None)\<close> call the method of \<open>_LOG\<close> when
  it is not \<open>None\<close>, and have no \<open>return\<close> statement: what they return is \<open>None\<close>.
\<close>

definition file_level :: "pyval \<Rightarrow> pystate \<Rightarrow> (error + pyval) \<times> pystate" where
  "file_level level s =
     (case LOG s of
        None \<Rightarrow> (Inr PNone, s)
      | Some g \<Rightarrow>
          (case Log_file_level g level s of
             (Inl e, s1) \<Rightarrow> (Inl e, s1)
           | (Inr _, s1) \<Rightarrow> (Inr PNone, s1)))"

definition level :: "pyval \<Rightarrow> pystate \<Rightarrow> (error + pyval) \<times> pystate" where
  "level level' s =
     (case LOG s of
        None \<Rightarrow> (Inr PNone, s)
      | Some g \<Rightarrow>
          (case Log_level g level' s of
             (Inl e, s1) \<Rightarrow> (Inl e, s1)
           | (Inr _, s1) \<Rightarrow> (Inr PNone, s1)))"

definition log :: "pyval \<Rightarrow> pyval \<Rightarrow> datetime \<Rightarrow> pystate \<Rightarrow> (error + unit) \<times> pystate" where
  "log message level' now s =
     (case LOG s of
        None \<Rightarrow> (Inr (), s)
      | Some g \<Rightarrow> Log_log g message level' now s)"

definition error :: "pyval \<Rightarrow> datetime \<Rightarrow> pystate \<Rightarrow> (error + unit) \<times> pystate" where
  "error message now s = log message (PLevel Error) now s"

definition warn :: "pyval \<Rightarrow> datetime \<Rightarrow> pystate \<Rightarrow> (error + unit) \<times> pystate" where
  "warn message now s = log message (PLevel Warning) now s"

definition info :: "pyval \<Rightarrow> datetime \<Rightarrow> pystate \<Rightarrow> (error + unit) \<times> pystate" where
  "info message now s = log message (PLevel Info) now s"

definition debug :: "pyval \<Rightarrow> datetime \<Rightarrow> pystate \<Rightarrow> (error + unit) \<times> pystate" where
  "debug message now s = log message (PLevel Debug) now s"

text \<open>
  Importing the module: \<open>_LOG = None\<close>, and later \<open>Log().set_global()\<close>, from a state
  with no object yet.
\<close>

definition import_module :: "(pystr \<Rightarrow> bool) \<Rightarrow> pystate" where
  "import_module writable =
     (let s0 = \<lparr>objs = Map.empty, next_ref = 0, LOG = None, out = [], next_file = 0,
                fs_writable = writable\<rparr>
      in case Log_init [] None None None None None s0 of
           (Inl e, s1) \<Rightarrow> s1
         | (Inr self, s1) \<Rightarrow> snd (Log_set_global self s1))"


section \<open>Reachable states and example values\<close>

text \<open>
  What the constructor establishes and every method keeps: each stack of each logger
  has an entry, and \<open>_LOG\<close> refers to an object.
\<close>

definition stacks_nonempty :: "pystate \<Rightarrow> bool" where
  "stacks_nonempty s =
     (\<forall>r lg. objs s r = Some lg \<longrightarrow> self_file_levels lg \<noteq> [] \<and> self_levels lg \<noteq> [])"

definition global_installed :: "pystate \<Rightarrow> bool" where
  "global_installed s = (\<exists>g lg. LOG s = Some g \<and> objs s g = Some lg)"

text \<open>A time stamp for the examples: 2024-02-29 23:59:07.001500 UTC.\<close>

definition t_example :: datetime where
  "t_example = \<lparr>year = 2024, month = 2, day = 29, hour = 23, minute = 59, second = 7,
                 microsecond = 1500\<rparr>"

text \<open>The logger that \<open>Log()\<close> constructs.\<close>

definition default_logger :: Logger where
  "default_logger =
     \<lparr>self_file_levels = [PLevel Log], self_levels = [PLevel Log],
      self_stdout = True, self_opaths = [], self_ofiles = [],
      self_formatter = json_formatter, self_stdout_formatter = stdout_formatter\<rparr>"

text \<open>
  A second logger for the examples, constructed after the import by
  \<open>Log(f, file_level=Level.Warning, stdout_level=Level.Debug)\<close> with the open file
  object 7: the state then holds the default logger 0 and this logger 1.
\<close>

definition sink_logger :: Logger where
  "sink_logger =
     \<lparr>self_file_levels = [PLevel Warning], self_levels = [PLevel Debug],
      self_stdout = True, self_opaths = [OFile 7], self_ofiles = [7],
      self_formatter = json_formatter, self_stdout_formatter = stdout_formatter\<rparr>"

definition s_example :: pystate where
  "s_example =
     snd (Log_init [OFile 7] (Some (PLevel Warning)) None None (Some (PLevel Debug)) None
            (import_module (\<lambda>_. True)))"

section \<open>Reading the machine format\<close>

text \<open>
  The module writes the machine format and never reads it. The reader of this section
  is the matching parser the round trip is stated against: it does what Python's own
  readers do on a line of \<open>json_formatter\<close>, namely \<open>json.loads\<close> on an object with
  the keys \<open>time\<close>, \<open>level\<close>, \<open>message\<close>, then \<open>datetime.fromisoformat\<close> on the time
  and \<open>Level(n)\<close> on the number. Failure to read is \<open>None\<close>.
\<close>

text \<open>
  The message \<open>"h\<close>e-acute\<open>llo"\<close> (233 is the code point U+00E9), the record that
  carries it at severity \<open>Info\<close>, and the line expected for it.
\<close>

definition hello :: pystr where
  "hello = [104, 233, 108, 108, 111]"

definition hello_record :: "datetime \<Rightarrow> log_record" where
  "hello_record t = \<lparr>r_time = t, r_level = PLevel Info, r_message = PStr hello\<rparr>"

definition hello_line :: "datetime \<Rightarrow> pystr" where
  \<open>hello_line t =
     ascii ''{"time": "'' @ isoformat t
     @ ascii ''", "level": 4, "message": "h'' @ [92] @ ascii ''u00e9llo"}''\<close>

text \<open>The field ranges of a \<open>datetime\<close> object of Python.\<close>

definition valid_datetime :: "datetime \<Rightarrow> bool" where
  "valid_datetime t =
     (1 \<le> year t \<and> year t \<le> 9999 \<and> 1 \<le> month t \<and> month t \<le> 12
      \<and> 1 \<le> day t \<and> day t \<le> 31 \<and> hour t < 24 \<and> minute t < 60 \<and> second t < 60
      \<and> microsecond t < 1000000)"

text \<open>Pure ASCII: every code point is below 128.\<close>

definition is_ascii :: "pystr \<Rightarrow> bool" where
  "is_ascii s = list_all (\<lambda>c. c < 128) s"

text \<open>The code points that the encoder of \<open>json.dumps\<close> leaves as they are.\<close>

definition plain :: "nat \<Rightarrow> bool" where
  "plain c = (32 \<le> c \<and> c \<le> 126 \<and> c \<noteq> 34 \<and> c \<noteq> 92)"

subsection \<open>Scanning\<close>

definition is_digit :: "nat \<Rightarrow> bool" where
  "is_digit c = (48 \<le> c \<and> c \<le> 57)"

definition digits_value :: "pystr \<Rightarrow> nat" where
  "digits_value ds = foldl (\<lambda>a d. 10 * a + (d - 48)) 0 ds"

text \<open>Exactly \<open>w\<close> decimal digits: their value and the rest of the text.\<close>

definition take_digits :: "nat \<Rightarrow> pystr \<Rightarrow> (nat \<times> pystr) option" where
  "take_digits w s =
     (if w \<le> length s \<and> list_all is_digit (take w s)
      then Some (digits_value (take w s), drop w s) else None)"

text \<open>The code point \<open>c\<close>, or the text \<open>p\<close>, at the head of the input.\<close>

definition expect :: "nat \<Rightarrow> pystr \<Rightarrow> pystr option" where
  "expect c s = (case s of [] \<Rightarrow> None | x # rest \<Rightarrow> if x = c then Some rest else None)"

definition expect_str :: "pystr \<Rightarrow> pystr \<Rightarrow> pystr option" where
  "expect_str p s = (if take (length p) s = p then Some (drop (length p) s) else None)"

subsection \<open>\<open>datetime.fromisoformat\<close>\<close>

text \<open>
  The texts that \<open>isoformat\<close> produces for a UTC time:
  \<open>YYYY-MM-DDTHH:MM:SS\<close>, an optional \<open>.ffffff\<close>, and the offset \<open>+00:00\<close>.
\<close>

definition fromisoformat :: "pystr \<Rightarrow> datetime option" where
  "fromisoformat s0 = do {
     (y, s1) \<leftarrow> take_digits 4 s0;
     s2 \<leftarrow> expect 45 s1;
     (mo, s3) \<leftarrow> take_digits 2 s2;
     s4 \<leftarrow> expect 45 s3;
     (d, s5) \<leftarrow> take_digits 2 s4;
     s6 \<leftarrow> expect 84 s5;
     (h, s7) \<leftarrow> take_digits 2 s6;
     s8 \<leftarrow> expect 58 s7;
     (mi, s9) \<leftarrow> take_digits 2 s8;
     s10 \<leftarrow> expect 58 s9;
     (sec, s11) \<leftarrow> take_digits 2 s10;
     (us, s13) \<leftarrow> (case expect 46 s11 of
                      None \<Rightarrow> Some (0, s11)
                    | Some s12 \<Rightarrow> take_digits 6 s12);
     if s13 = ascii ''+00:00''
     then Some \<lparr>year = y, month = mo, day = d, hour = h, minute = mi, second = sec,
                 microsecond = us\<rparr>
     else None
   }"

subsection \<open>\<open>json.loads\<close>\<close>

definition hex_value :: "nat \<Rightarrow> nat option" where
  "hex_value c =
     (if 48 \<le> c \<and> c \<le> 57 then Some (c - 48)
      else if 97 \<le> c \<and> c \<le> 102 then Some (c - 87)
      else if 65 \<le> c \<and> c \<le> 70 then Some (c - 55)
      else None)"

definition hex4_value :: "nat \<Rightarrow> nat \<Rightarrow> nat \<Rightarrow> nat \<Rightarrow> nat option" where
  "hex4_value a b c d =
     (case (hex_value a, hex_value b, hex_value c, hex_value d) of
        (Some x, Some y, Some z, Some w) \<Rightarrow> Some (4096 * x + 256 * y + 16 * z + w)
      | _ \<Rightarrow> None)"

text \<open>The short escapes: the character after the backslash and what it stands for.\<close>

definition unescape :: "nat \<Rightarrow> nat option" where
  "unescape e =
     (if e = 34 then Some 34 else if e = 92 then Some 92 else if e = 47 then Some 47
      else if e = 98 then Some 8 else if e = 102 then Some 12 else if e = 110 then Some 10
      else if e = 114 then Some 13 else if e = 116 then Some 9 else None)"

text \<open>
  The body of a string literal, from behind the opening quote up to the closing one:
  the decoded code units and the rest of the text. Control characters are refused.
\<close>

fun scan_string :: "pystr \<Rightarrow> (pystr \<times> pystr) option" where
  "scan_string [] = None"
| "scan_string (c # cs) =
     (if c = 34 then Some ([], cs)
      else if c = 92 then
        (case cs of
           [] \<Rightarrow> None
         | e # cs1 \<Rightarrow>
             if e = 117 then
               (case cs1 of
                  a # b # c' # d # cs2 \<Rightarrow>
                    (case hex4_value a b c' d of
                       None \<Rightarrow> None
                     | Some n \<Rightarrow>
                         (case scan_string cs2 of
                            None \<Rightarrow> None
                          | Some (s, rest) \<Rightarrow> Some (n # s, rest)))
                | _ \<Rightarrow> None)
             else
               (case unescape e of
                  None \<Rightarrow> None
                | Some ch \<Rightarrow>
                    (case scan_string cs1 of
                       None \<Rightarrow> None
                     | Some (s, rest) \<Rightarrow> Some (ch # s, rest))))
      else if c < 32 then None
      else (case scan_string cs of
              None \<Rightarrow> None
            | Some (s, rest) \<Rightarrow> Some (c # s, rest)))"

text \<open>A high surrogate followed by a low one is one code point above the basic plane.\<close>

fun join_surrogates :: "pystr \<Rightarrow> pystr" where
  "join_surrogates (h # l # cs) =
     (if 55296 \<le> h \<and> h < 56320 \<and> 56320 \<le> l \<and> l < 57344
      then (65536 + (h - 55296) * 1024 + (l - 56320)) # join_surrogates cs
      else h # join_surrogates (l # cs))"
| "join_surrogates cs = cs"

definition json_string :: "pystr \<Rightarrow> (pystr \<times> pystr) option" where
  "json_string s = do {
     s1 \<leftarrow> expect 34 s;
     (v, rest) \<leftarrow> scan_string s1;
     Some (join_surrogates v, rest)
   }"

definition json_int :: "pystr \<Rightarrow> (int \<times> pystr) option" where
  "json_int s =
     (let (neg, s1) = (case s of
                         [] \<Rightarrow> (False, s)
                       | c # r \<Rightarrow> if c = 45 then (True, r) else (False, s));
          ds = takeWhile is_digit s1
      in if ds = [] then None
         else Some ((if neg then - int (digits_value ds) else int (digits_value ds)),
                    dropWhile is_digit s1))"

text \<open>The key \<open>k\<close> as a string literal, followed by \<open>": "\<close>.\<close>

definition json_key :: "pystr \<Rightarrow> pystr \<Rightarrow> pystr option" where
  "json_key k s = do {
     (k', s1) \<leftarrow> json_string s;
     if k' = k then expect_str (ascii '': '') s1 else None
   }"

text \<open>The object of a line: the values of \<open>time\<close>, \<open>level\<close> and \<open>message\<close>.\<close>

definition json_loads_record :: "pystr \<Rightarrow> (pystr \<times> int \<times> pystr) option" where
  "json_loads_record s0 = do {
     s1 \<leftarrow> expect 123 s0;
     s2 \<leftarrow> json_key (ascii ''time'') s1;
     (time, s3) \<leftarrow> json_string s2;
     s4 \<leftarrow> expect_str (ascii '', '') s3;
     s5 \<leftarrow> json_key (ascii ''level'') s4;
     (level, s6) \<leftarrow> json_int s5;
     s7 \<leftarrow> expect_str (ascii '', '') s6;
     s8 \<leftarrow> json_key (ascii ''message'') s7;
     (message, s9) \<leftarrow> json_string s8;
     if s9 = [125] then Some (time, level, message) else None
   }"

text \<open>\<open>Level(n)\<close>: the member with the value \<open>n\<close>.\<close>

definition Level_of_value :: "int \<Rightarrow> Level option" where
  "Level_of_value n =
     (if n = 1 then Some Error else if n = 2 then Some Warning else if n = 3 then Some Log
      else if n = 4 then Some Info else if n = 5 then Some Debug else None)"

text \<open>A line read back into the record it was written from.\<close>

definition parse_json_line :: "pystr \<Rightarrow> log_record option" where
  "parse_json_line s = do {
     (time, level, message) \<leftarrow> json_loads_record s;
     t \<leftarrow> fromisoformat time;
     l \<leftarrow> Level_of_value level;
     Some \<lparr>r_time = t, r_level = PLevel l, r_message = PStr message\<rparr>
   }"


section \<open>Severity names\<close>

lemmas name_simps = lower_def lower_cp_def ascii_def level_names_def

text \<open>
  C3. \<open>_ensure_level\<close> succeeds exactly on the five lower-case names: the lower-case
  name of every severity \<open>s\<close> (\<open>level.name.lower()\<close>) is turned into \<open>s\<close>, a member of
  \<open>Level\<close> is returned unchanged, and every \<open>str\<close> that is not the lower-case name of
  a severity raises \<open>ValueError("Invalid level name: ...")\<close>.
\<close>

theorem ensure_level_exact:
  "ensure_level (PStr (lower (Level_name s))) = Inr (PLevel s)
   \<and> ensure_level (PLevel s) = Inr (PLevel s)
   \<and> ((\<forall>s'. x \<noteq> lower (Level_name s')) \<longrightarrow>
        ensure_level (PStr x) = Inl (ValueError (Some (ascii ''Invalid level name: '' @ x))))"
proof (intro conjI impI)
  show "ensure_level (PStr (lower (Level_name s))) = Inr (PLevel s)"
    by (cases s) (simp_all add: name_simps)
  show "ensure_level (PLevel s) = Inr (PLevel s)" by simp
next
  assume other: "\<forall>s'. x \<noteq> lower (Level_name s')"
  have "map_of level_names x = None"
    using other[rule_format, of Error] other[rule_format, of Warning] other[rule_format, of Log]
      other[rule_format, of Info] other[rule_format, of Debug]
    by (simp add: name_simps)
  then show "ensure_level (PStr x) = Inl (ValueError (Some (ascii ''Invalid level name: '' @ x)))"
    by simp
qed

theorem ensure_level_exact_witness:
  "ensure_level (PStr (ascii ''warning'')) = Inr (PLevel Warning)
   \<and> ensure_level (PLevel Warning) = Inr (PLevel Warning)
   \<and> ensure_level (PStr (ascii ''bogus'')) =
       Inl (ValueError (Some (ascii ''Invalid level name: bogus'')))"
proof -
  have other: "\<forall>s'. ascii ''bogus'' \<noteq> lower (Level_name s')"
  proof
    fix s' show "ascii ''bogus'' \<noteq> lower (Level_name s')"
      by (cases s') (simp_all add: name_simps)
  qed
  show ?thesis
    using ensure_level_exact [of Warning "ascii ''bogus''"] other
    by (simp add: name_simps)
qed


section \<open>The state after the import\<close>

lemma import_module_eq:
  "import_module w =
     \<lparr>objs = [0 \<mapsto> default_logger], next_ref = 1, LOG = Some 0, out = [], next_file = 0,
      fs_writable = w\<rparr>"
  by (simp add: import_module_def Log_init_def Log_set_global_def Let_def default_logger_def)

lemma import_module_objs: "objs (import_module w) 0 = Some default_logger"
  by (simp add: import_module_eq)

lemma import_module_reachable:
  "stacks_nonempty (import_module w) \<and> global_installed (import_module w)"
  by (simp add: import_module_eq stacks_nonempty_def global_installed_def default_logger_def)

section \<open>The level stacks\<close>

lemma Logger_stack_triv:
  "lg\<lparr>self_file_levels := self_file_levels lg\<rparr> = (lg::Logger)"
  "lg\<lparr>self_levels := self_levels lg\<rparr> = (lg::Logger)"
  by simp_all

lemma objs_upd_triv: "objs s r = Some lg \<Longrightarrow> s\<lparr>objs := (objs s)(r \<mapsto> lg)\<rparr> = (s::pystate)"
  by (simp add: fun_upd_idem)

text \<open>
  C4. When the file stack (the console stack) of a logger has length 1, popping it
  raises the bare \<open>ValueError\<close> and the whole state, so the stack and its current
  threshold, is as before.
\<close>

theorem pop_single_level_fails:
  assumes "objs s self = Some lg"
  shows "(length (self_file_levels lg) = 1 \<longrightarrow>
            Log_file_level self PNone s = (Inl (ValueError None), s))
       \<and> (length (self_levels lg) = 1 \<longrightarrow>
            Log_level self PNone s = (Inl (ValueError None), s))"
  using assms by (simp add: Log_file_level_def Log_level_def)

theorem pop_single_level_fails_witness:
  "Log_file_level 0 PNone (import_module (\<lambda>_. True)) =
     (Inl (ValueError None), import_module (\<lambda>_. True))
   \<and> Log_level 0 PNone (import_module (\<lambda>_. True)) =
     (Inl (ValueError None), import_module (\<lambda>_. True))"
  using pop_single_level_fails [of "import_module (\<lambda>_. True)" 0 default_logger]
  by (simp add: import_module_objs) (simp add: default_logger_def)

text \<open>
  C5. On a logger whose stack has an entry (every constructed logger), pushing a
  severity \<open>v\<close> on the file stack (the console stack) returns \<open>None\<close>, and the pop that
  follows returns \<open>v\<close> and gives back the state before the push: every later call runs
  from the same state as without the pair.
\<close>

theorem push_pop_restores:
  assumes "objs s self = Some lg"
  shows "(self_file_levels lg \<noteq> [] \<longrightarrow>
           (case Log_file_level self (PLevel v) s of
              (r1, s1) \<Rightarrow> r1 = Inr PNone \<and> Log_file_level self PNone s1 = (Inr (PLevel v), s)))
       \<and> (self_levels lg \<noteq> [] \<longrightarrow>
           (case Log_level self (PLevel v) s of
              (r1, s1) \<Rightarrow> r1 = Inr PNone \<and> Log_level self PNone s1 = (Inr (PLevel v), s)))"
proof (intro conjI impI)
  assume ne: "self_file_levels lg \<noteq> []"
  then have "\<not> length (self_file_levels lg) < Suc 0" by (cases "self_file_levels lg") simp_all
  then show "case Log_file_level self (PLevel v) s of
              (r1, s1) \<Rightarrow> r1 = Inr PNone \<and> Log_file_level self PNone s1 = (Inr (PLevel v), s)"
    using assms by (simp add: Log_file_level_def Logger_stack_triv objs_upd_triv)
next
  assume ne: "self_levels lg \<noteq> []"
  then have "\<not> length (self_levels lg) < Suc 0" by (cases "self_levels lg") simp_all
  then show "case Log_level self (PLevel v) s of
              (r1, s1) \<Rightarrow> r1 = Inr PNone \<and> Log_level self PNone s1 = (Inr (PLevel v), s)"
    using assms by (simp add: Log_level_def Logger_stack_triv objs_upd_triv)
qed

theorem push_pop_restores_witness:
  "(case Log_file_level 0 (PLevel Debug) (import_module (\<lambda>_. True)) of
      (r1, s1) \<Rightarrow> r1 = Inr PNone
        \<and> Log_file_level 0 PNone s1 = (Inr (PLevel Debug), import_module (\<lambda>_. True)))
   \<and> (case Log_level 0 (PLevel Debug) (import_module (\<lambda>_. True)) of
      (r1, s1) \<Rightarrow> r1 = Inr PNone
        \<and> Log_level 0 PNone s1 = (Inr (PLevel Debug), import_module (\<lambda>_. True)))"
  using push_pop_restores [of "import_module (\<lambda>_. True)" 0 default_logger Debug]
  by (simp add: import_module_objs) (simp add: default_logger_def)


section \<open>Logging\<close>

lemma value_attr_Inl: "value_attr v = Inl e \<Longrightarrow> e = AttributeError"
  by (cases v) simp_all

lemma admits_str:
  "admits stack (PStr name) = Inl (if stack = [] then IndexError else AttributeError)"
  by (auto simp add: admits_def getitem_last_def split: sum.splits dest: value_attr_Inl)

text \<open>
  C9. \<open>Log.log\<close> does not pass its level through \<open>_ensure_level\<close>: with a \<open>str\<close> as
  the level, whatever its text, the call raises at the first comparison
  (\<open>AttributeError\<close>; \<open>IndexError\<close> if the file stack were empty) and the state, with the
  trace of what was written, is as before. The module's \<open>log\<close> does the same through
  the global logger.
\<close>

theorem log_str_level_fails:
  assumes "objs s self = Some lg"
  shows "Log_log self message (PStr name) now s =
           (Inl (if self_file_levels lg = [] then IndexError else AttributeError), s)
       \<and> (LOG s = Some self \<longrightarrow>
            log message (PStr name) now s =
              (Inl (if self_file_levels lg = [] then IndexError else AttributeError), s))"
  using assms by (simp add: Log_log_def log_def log_files_def admits_str)

theorem log_str_level_fails_witness:
  "Log_log 0 (PStr (ascii ''x'')) (PStr (ascii ''error'')) t_example (import_module (\<lambda>_. True)) =
     (Inl AttributeError, import_module (\<lambda>_. True))
   \<and> log (PStr (ascii ''x'')) (PStr (ascii ''error'')) t_example (import_module (\<lambda>_. True)) =
     (Inl AttributeError, import_module (\<lambda>_. True))"
proof -
  have "LOG (import_module (\<lambda>_. True)) = Some 0" by (simp add: import_module_eq)
  moreover have "self_file_levels default_logger \<noteq> []" by (simp add: default_logger_def)
  ultimately show ?thesis
    using log_str_level_fails [of "import_module (\<lambda>_. True)" 0 default_logger
        "PStr (ascii ''x'')" "ascii ''error''" t_example]
    by (simp add: import_module_objs)
qed

lemma log_files_frame: "snd (log_files lg r s) = s\<lparr>out := out (snd (log_files lg r s))\<rparr>"
  by (simp add: log_files_def write_all_def split: sum.splits bool.splits)

lemma log_stdout_frame: "snd (log_stdout lg r s) = s\<lparr>out := out (snd (log_stdout lg r s))\<rparr>"
  by (simp add: log_stdout_def split: sum.splits bool.splits)

lemma Log_log_frame:
  "snd (Log_log self message lv now s) = s\<lparr>out := out (snd (Log_log self message lv now s))\<rparr>"
proof (cases "objs s self")
  case None
  then show ?thesis by (simp add: Log_log_def)
next
  case (Some lg)
  let ?r = "\<lparr>r_time = now, r_level = lv, r_message = message\<rparr>"
  obtain res s1 where f: "log_files lg ?r s = (res, s1)" by (cases "log_files lg ?r s")
  have s1: "s1 = s\<lparr>out := out s1\<rparr>" using log_files_frame [of lg ?r s] f by simp
  show ?thesis
  proof (cases res)
    case (Inl e)
    then show ?thesis using Some f s1 by (simp add: Log_log_def)
  next
    case (Inr u)
    have "snd (log_stdout lg ?r s1) = s1\<lparr>out := out (snd (log_stdout lg ?r s1))\<rparr>"
      by (rule log_stdout_frame)
    also have "\<dots> = s\<lparr>out := out (snd (log_stdout lg ?r s1))\<rparr>"
      by (subst s1) simp
    finally show ?thesis using Some f Inr by (simp add: Log_log_def)
  qed
qed

lemma log_frame:
  "snd (log message lv now s) = s\<lparr>out := out (snd (log message lv now s))\<rparr>"
  by (cases "LOG s") (simp_all add: log_def Log_log_frame [symmetric])

text \<open>
  C10. A call of \<open>log\<close>, \<open>error\<close>, \<open>warn\<close>, \<open>info\<close> or \<open>debug\<close>, on a logger or through
  the module, whether it writes, writes nothing or raises, changes nothing of the state
  but the trace of what was written: the objects (both stacks, the sinks, the console
  flag and both formatters of every logger) and \<open>_LOG\<close> are as before.
\<close>

theorem log_leaves_state:
  "snd (Log_log self message lv now s) = s\<lparr>out := out (snd (Log_log self message lv now s))\<rparr>
   \<and> snd (Log_error self message now s) = s\<lparr>out := out (snd (Log_error self message now s))\<rparr>
   \<and> snd (Log_warn self message now s) = s\<lparr>out := out (snd (Log_warn self message now s))\<rparr>
   \<and> snd (Log_info self message now s) = s\<lparr>out := out (snd (Log_info self message now s))\<rparr>
   \<and> snd (Log_debug self message now s) = s\<lparr>out := out (snd (Log_debug self message now s))\<rparr>
   \<and> snd (log message lv now s) = s\<lparr>out := out (snd (log message lv now s))\<rparr>
   \<and> snd (error message now s) = s\<lparr>out := out (snd (error message now s))\<rparr>
   \<and> snd (warn message now s) = s\<lparr>out := out (snd (warn message now s))\<rparr>
   \<and> snd (info message now s) = s\<lparr>out := out (snd (info message now s))\<rparr>
   \<and> snd (debug message now s) = s\<lparr>out := out (snd (debug message now s))\<rparr>"
  unfolding Log_error_def Log_warn_def Log_info_def Log_debug_def
    error_def warn_def info_def debug_def
  by (intro conjI Log_log_frame log_frame)

section \<open>The global logger\<close>

text \<open>
  C6. \<open>set_global\<close> returns the previous \<open>_LOG\<close> and installs the receiver: after
  \<open>a.set_global()\<close> and \<open>b.set_global()\<close> the second call has returned \<open>a\<close>, \<open>_LOG\<close> is
  \<open>b\<close>, and the module's \<open>log\<close> is \<open>b.log\<close>, in that state and in every state that
  differs from it in the objects and the trace only.
\<close>

theorem set_global_twice:
  "(case Log_set_global a s of
      (r1, s1) \<Rightarrow>
        (case Log_set_global b s1 of
           (r2, s2) \<Rightarrow>
             r1 = LOG s \<and> r2 = Some a \<and> LOG s2 = Some b
             \<and> log message lv now s2 = Log_log b message lv now s2
             \<and> log message lv now (s2\<lparr>objs := h, out := tr\<rparr>)
                 = Log_log b message lv now (s2\<lparr>objs := h, out := tr\<rparr>)))"
  by (simp add: Log_set_global_def log_def)

text \<open>
  C2. The module's \<open>file_level()\<close> and \<open>level()\<close> pop the stack of the global logger
  but have no \<open>return\<close>: after the import and a push of \<open>Debug\<close>, the method's pop
  returns \<open>Debug\<close>, while the module's pop removes \<open>Debug\<close> and returns \<open>None\<close>.
\<close>

theorem facade_pop_returns_None:
  "(case file_level (PLevel Debug) (import_module (\<lambda>_. True)) of
      (r1, s1) \<Rightarrow>
        r1 = Inr PNone
        \<and> map_option self_file_levels (objs s1 0) = Some [PLevel Log, PLevel Debug]
        \<and> LOG s1 = Some 0
        \<and> fst (Log_file_level 0 PNone s1) = Inr (PLevel Debug)
        \<and> fst (file_level PNone s1) = Inr PNone
        \<and> map_option self_file_levels (objs (snd (file_level PNone s1)) 0) = Some [PLevel Log])
   \<and> (case level (PLevel Debug) (import_module (\<lambda>_. True)) of
      (r1, s1) \<Rightarrow>
        r1 = Inr PNone
        \<and> map_option self_levels (objs s1 0) = Some [PLevel Log, PLevel Debug]
        \<and> LOG s1 = Some 0
        \<and> fst (Log_level 0 PNone s1) = Inr (PLevel Debug)
        \<and> fst (level PNone s1) = Inr PNone
        \<and> map_option self_levels (objs (snd (level PNone s1)) 0) = Some [PLevel Log])"
  by (simp add: import_module_eq file_level_def level_def Log_file_level_def Log_level_def
      default_logger_def)


section \<open>The constructor and what the methods keep\<close>

lemma open_w_frame:
  "open_w p s = (r, s1) \<Longrightarrow> objs s1 = objs s \<and> LOG s1 = LOG s \<and> next_ref s1 = next_ref s"
  by (auto simp add: open_w_def split: if_splits)

lemma open_all_frame:
  "open_all ps s = (r, s1) \<Longrightarrow> objs s1 = objs s \<and> LOG s1 = LOG s \<and> next_ref s1 = next_ref s"
proof (induction ps arbitrary: s r s1)
  case Nil
  then show ?case by simp
next
  case (Cons p ps)
  show ?case
  proof (cases p)
    case (OFile f)
    obtain r2 s2 where rest: "open_all ps s = (r2, s2)" by (cases "open_all ps s")
    from Cons.IH [OF rest] Cons.prems OFile rest show ?thesis
      by (auto split: sum.splits prod.splits)
  next
    case (OStr path)
    obtain r0 s0 where o: "open_w path s = (r0, s0)" by (cases "open_w path s")
    obtain r2 s2 where rest: "open_all ps s0 = (r2, s2)" by (cases "open_all ps s0")
    from Cons.IH [OF rest] open_w_frame [OF o] Cons.prems OStr o rest show ?thesis
      by (auto split: sum.splits prod.splits)
  next
    case (OPath path)
    obtain r0 s0 where o: "open_w path s = (r0, s0)" by (cases "open_w path s")
    obtain r2 s2 where rest: "open_all ps s0 = (r2, s2)" by (cases "open_all ps s0")
    from Cons.IH [OF rest] open_w_frame [OF o] Cons.prems OPath o rest show ?thesis
      by (auto split: sum.splits prod.splits)
  qed
qed

lemma Log_init_object:
  assumes "Log_init opaths flk fk sk slk sfk s = (Inr self, s1)"
  shows "self = next_ref s \<and> LOG s1 = LOG s
       \<and> (\<forall>r. r \<noteq> self \<longrightarrow> objs s1 r = objs s r)
       \<and> map_option self_file_levels (objs s1 self) =
            Some [case flk of None \<Rightarrow> PLevel Log | Some v \<Rightarrow> v]
       \<and> map_option self_levels (objs s1 self) =
            Some [if slk = None \<or> slk = Some PNone
                  then (case flk of None \<Rightarrow> PLevel Log | Some v \<Rightarrow> v) else the slk]
       \<and> map_option self_stdout (objs s1 self) = Some (case sk of None \<Rightarrow> True | Some b \<Rightarrow> b)
       \<and> map_option self_formatter (objs s1 self) =
            Some (case fk of None \<Rightarrow> json_formatter | Some f \<Rightarrow> f)
       \<and> map_option self_stdout_formatter (objs s1 self) =
            Some (case sfk of None \<Rightarrow> stdout_formatter | Some f \<Rightarrow> f)"
proof -
  obtain r0 s0 where o: "open_all opaths s = (r0, s0)" by (cases "open_all opaths s")
  from open_all_frame [OF o] assms o show ?thesis
    by (cases r0) (auto simp add: Log_init_def Let_def split: option.splits)
qed

lemma Log_init_reachable:
  assumes "Log_init opaths flk fk sk slk sfk s = (r, s1)" and "stacks_nonempty s"
  shows "stacks_nonempty s1"
proof (cases r)
  case (Inl e)
  obtain r0 s0 where o: "open_all opaths s = (r0, s0)" by (cases "open_all opaths s")
  from open_all_frame [OF o] assms o Inl show ?thesis
    by (cases r0) (auto simp add: Log_init_def Let_def stacks_nonempty_def)
next
  case (Inr self)
  note ob = Log_init_object [OF assms(1) [unfolded Inr]]
  show ?thesis
    unfolding stacks_nonempty_def
  proof (intro allI impI)
    fix r lg assume lg: "objs s1 r = Some lg"
    show "self_file_levels lg \<noteq> [] \<and> self_levels lg \<noteq> []"
    proof (cases "r = self")
      case True
      with ob lg show ?thesis by auto
    next
      case False
      with ob lg assms(2) show ?thesis by (auto simp add: stacks_nonempty_def)
    qed
  qed
qed

lemma butlast_nonempty: "\<not> length xs < 2 \<Longrightarrow> butlast xs \<noteq> []"
  by (cases xs rule: rev_cases) auto

lemma Log_file_level_reachable:
  assumes "Log_file_level self v s = (r, s1)" and "stacks_nonempty s"
  shows "stacks_nonempty s1 \<and> LOG s1 = LOG s \<and> dom (objs s1) = dom (objs s)"
  using assms
  by (auto simp add: Log_file_level_def stacks_nonempty_def butlast_nonempty
      split: option.splits if_splits sum.splits)

lemma Log_level_reachable:
  assumes "Log_level self v s = (r, s1)" and "stacks_nonempty s"
  shows "stacks_nonempty s1 \<and> LOG s1 = LOG s \<and> dom (objs s1) = dom (objs s)"
  using assms
  by (auto simp add: Log_level_def stacks_nonempty_def butlast_nonempty
      split: option.splits if_splits sum.splits)

lemma Log_set_global_reachable:
  assumes "objs s self = Some lg"
  shows "global_installed (snd (Log_set_global self s))
       \<and> (stacks_nonempty s \<longrightarrow> stacks_nonempty (snd (Log_set_global self s)))"
  using assms by (simp add: Log_set_global_def global_installed_def stacks_nonempty_def)

section \<open>Filtering\<close>

lemma admits_levels:
  "stack \<noteq> [] \<Longrightarrow> last stack = PLevel T \<Longrightarrow>
     admits stack (PLevel S) = Inr (Level_value T \<ge> Level_value S)"
  by (simp add: admits_def getitem_last_def)

text \<open>
  C1. With file threshold \<open>T\<close> (the top of the file stack) and a severity \<open>S\<close>,
  \<open>log(message, S)\<close> writes the line of the file formatter, followed by a newline,
  once to every entry of the sink list exactly when \<open>rank S \<le> rank T\<close>
  (\<open>Level_value\<close>: Error 1, Warning 2, Log 3, Info 4, Debug 5); and, independently,
  prints the line of the console formatter exactly when the console is enabled and
  \<open>rank S \<le> rank T'\<close> for the console threshold \<open>T'\<close>. Nothing else is written. A
  formatter has to render the record only where it is called.
\<close>

theorem log_filtering:
  assumes obj: "objs s self = Some lg"
    and ftop: "self_file_levels lg \<noteq> [] \<and> last (self_file_levels lg) = PLevel T"
    and ffmt: "Level_value S \<le> Level_value T \<longrightarrow>
                 self_formatter lg \<lparr>r_time = now, r_level = PLevel S, r_message = message\<rparr>
                   = Inr fline"
    and ctop: "self_stdout lg \<longrightarrow> self_levels lg \<noteq> [] \<and> last (self_levels lg) = PLevel T'"
    and cfmt: "self_stdout lg \<and> Level_value S \<le> Level_value T' \<longrightarrow>
                 self_stdout_formatter lg \<lparr>r_time = now, r_level = PLevel S, r_message = message\<rparr>
                   = Inr cline"
  shows "Log_log self message (PLevel S) now s =
           (Inr (),
            s\<lparr>out := out s
                 @ (if Level_value S \<le> Level_value T
                    then map (\<lambda>ofile. Write ofile (fline @ [10])) (self_ofiles lg) else [])
                 @ (if self_stdout lg \<and> Level_value S \<le> Level_value T'
                    then [Print cline] else [])\<rparr>)"
proof -
  let ?r = "\<lparr>r_time = now, r_level = PLevel S, r_message = message\<rparr>"
  let ?fs = "if Level_value S \<le> Level_value T
             then map (\<lambda>ofile. Write ofile (fline @ [10])) (self_ofiles lg) else []"
  have files: "log_files lg ?r s = (Inr (), s\<lparr>out := out s @ ?fs\<rparr>)"
    using ftop ffmt by (simp add: log_files_def admits_levels write_all_def)
  have console: "log_stdout lg ?r s1 =
      (Inr (), s1\<lparr>out := out s1 @ (if self_stdout lg \<and> Level_value S \<le> Level_value T'
                    then [Print cline] else [])\<rparr>)" for s1
    using ctop cfmt by (simp add: log_stdout_def admits_levels)
  show ?thesis
    using obj by (simp add: Log_log_def files console)
qed

lemma s_example_eq:
  "s_example =
     \<lparr>objs = [0 \<mapsto> default_logger, 1 \<mapsto> sink_logger], next_ref = 2, LOG = Some 0, out = [],
      next_file = 0, fs_writable = \<lambda>_. True\<rparr>"
  by (simp add: s_example_def import_module_eq Log_init_def Let_def sink_logger_def)

lemma json_formatter_example:
  \<open>json_formatter \<lparr>r_time = t_example, r_level = PLevel Error, r_message = PStr (ascii ''a'')\<rparr>
   = Inr (ascii ''{"time": "2024-02-29T23:59:07.001500+00:00", "level": 1, "message": "a"}'')\<close>
  by code_simp

lemma stdout_formatter_example:
  "stdout_formatter \<lparr>r_time = t_example, r_level = PLevel Error, r_message = PStr (ascii ''a'')\<rparr>
   = Inr (ascii ''2024-02-29 23:59:07.001500+00:00 - '' @ [27] @ ascii ''[31merror''
          @ [27] @ ascii ''[0m - a'')"
  "stdout_formatter \<lparr>r_time = t_example, r_level = PLevel Log, r_message = PStr (ascii ''b'')\<rparr>
   = Inr (ascii ''2024-02-29 23:59:07.001500+00:00 - '' @ [27] @ ascii ''[32mlog''
          @ [27] @ ascii ''[0m - b'')"
  by code_simp+

theorem log_filtering_witness:
  \<open>Log_log 1 (PStr (ascii ''a'')) (PLevel Error) t_example s_example =
     (Inr (),
      s_example\<lparr>out := out s_example @
        [Write 7 (ascii ''{"time": "2024-02-29T23:59:07.001500+00:00", "level": 1, "message": "a"}''
                  @ [10]),
         Print (ascii ''2024-02-29 23:59:07.001500+00:00 - '' @ [27] @ ascii ''[31merror''
                @ [27] @ ascii ''[0m - a'')]\<rparr>)
   \<and> Log_log 1 (PStr (ascii ''b'')) (PLevel Log) t_example s_example =
     (Inr (),
      s_example\<lparr>out := out s_example @
        [Print (ascii ''2024-02-29 23:59:07.001500+00:00 - '' @ [27] @ ascii ''[32mlog''
                @ [27] @ ascii ''[0m - b'')]\<rparr>)\<close>
proof -
  have obj: "objs s_example 1 = Some sink_logger" by (simp add: s_example_eq)
  have ftop: "self_file_levels sink_logger \<noteq> []
      \<and> last (self_file_levels sink_logger) = PLevel Warning"
    by (simp add: sink_logger_def)
  have ctop: "self_stdout sink_logger \<longrightarrow> self_levels sink_logger \<noteq> []
      \<and> last (self_levels sink_logger) = PLevel Debug"
    by (simp add: sink_logger_def)
  have fmt: "self_formatter sink_logger = json_formatter"
    "self_stdout_formatter sink_logger = stdout_formatter"
    "self_ofiles sink_logger = [7]" "self_stdout sink_logger"
    by (simp_all add: sink_logger_def)
  have a: "Log_log 1 (PStr (ascii ''a'')) (PLevel Error) t_example s_example =
     (Inr (),
      s_example\<lparr>out := out s_example @
        [Write 7 (projr (json_formatter \<lparr>r_time = t_example, r_level = PLevel Error,
                    r_message = PStr (ascii ''a'')\<rparr>) @ [10]),
         Print (projr (stdout_formatter \<lparr>r_time = t_example, r_level = PLevel Error,
                    r_message = PStr (ascii ''a'')\<rparr>))]\<rparr>)"
    using log_filtering [OF obj ftop _ ctop, of Error t_example "PStr (ascii ''a'')"
        "projr (json_formatter \<lparr>r_time = t_example, r_level = PLevel Error,
                    r_message = PStr (ascii ''a'')\<rparr>)"
        "projr (stdout_formatter \<lparr>r_time = t_example, r_level = PLevel Error,
                    r_message = PStr (ascii ''a'')\<rparr>)"]
    by (simp add: fmt json_formatter_example stdout_formatter_example)
  have b: "Log_log 1 (PStr (ascii ''b'')) (PLevel Log) t_example s_example =
     (Inr (),
      s_example\<lparr>out := out s_example @
        [Print (projr (stdout_formatter \<lparr>r_time = t_example, r_level = PLevel Log,
                    r_message = PStr (ascii ''b'')\<rparr>))]\<rparr>)"
    using log_filtering [OF obj ftop _ ctop, of Log t_example "PStr (ascii ''b'')" "[]"
        "projr (stdout_formatter \<lparr>r_time = t_example, r_level = PLevel Log,
                    r_message = PStr (ascii ''b'')\<rparr>)"]
    by (simp add: fmt stdout_formatter_example)
  show ?thesis
    unfolding a b by (simp add: json_formatter_example stdout_formatter_example)
qed


section \<open>Defaults of the constructor\<close>

text \<open>
  C7. When \<open>stdout_level\<close> is not given, the console stack starts with the file level,
  and the file level is \<open>Level.Log\<close> when it is not given either; so on a logger
  constructed with these defaults and with the console on (as \<open>Log()\<close> is), \<open>info\<close>
  writes nothing: the state after the call, output included, is the state before.
\<close>

theorem console_level_defaults:
  assumes "Log_init opaths file_level_kw formatter_kw stdout_kw None stdout_formatter_kw s
             = (Inr self, s1)"
  shows "map_option self_file_levels (objs s1 self) =
           Some [case file_level_kw of None \<Rightarrow> PLevel Log | Some v \<Rightarrow> v]
       \<and> map_option self_levels (objs s1 self) = map_option self_file_levels (objs s1 self)
       \<and> (file_level_kw = None \<and> stdout_kw = None \<longrightarrow>
            Log_info self message now s1 = (Inr (), s1))"
proof -
  note ob = Log_init_object [OF assms]
  from ob obtain lg where lg: "objs s1 self = Some lg" by auto
  have fl: "self_file_levels lg = [case file_level_kw of None \<Rightarrow> PLevel Log | Some v \<Rightarrow> v]"
    and cl: "self_levels lg = [case file_level_kw of None \<Rightarrow> PLevel Log | Some v \<Rightarrow> v]"
    and so: "self_stdout lg = (case stdout_kw of None \<Rightarrow> True | Some b \<Rightarrow> b)"
    using ob lg by simp_all
  have "Log_info self message now s1 = (Inr (), s1)"
    if "file_level_kw = None \<and> stdout_kw = None"
    using that lg fl cl so
    by (simp add: Log_info_def Log_log_def log_files_def log_stdout_def admits_def
        getitem_last_def)
  then show ?thesis using lg fl cl by simp
qed

theorem console_level_defaults_witness:
  "(case Log_init [] None None None None None (import_module (\<lambda>_. True)) of
      (r, s1) \<Rightarrow>
        r = Inr 1
        \<and> map_option self_file_levels (objs s1 1) = Some [PLevel Log]
        \<and> map_option self_levels (objs s1 1) = Some [PLevel Log]
        \<and> Log_info 1 (PStr (ascii ''x'')) t_example s1 = (Inr (), s1))"
proof -
  obtain s1 where i: "Log_init [] None None None None None (import_module (\<lambda>_. True)) = (Inr 1, s1)"
    by (simp add: Log_init_def Let_def import_module_eq)
  have "map_option self_file_levels (objs s1 1) = Some [PLevel Log]
       \<and> map_option self_levels (objs s1 1) = map_option self_file_levels (objs s1 1)
       \<and> Log_info 1 (PStr (ascii ''x'')) t_example s1 = (Inr (), s1)"
    using console_level_defaults [OF i, of "PStr (ascii ''x'')" t_example] by simp
  then show ?thesis using i by auto
qed

section \<open>The machine format read back\<close>

subsection \<open>Decimal fields\<close>

lemma digits_is_digit: "list_all is_digit (digits n)"
proof (induction n rule: digits.induct)
  case (1 n)
  show ?case
  proof (cases "n < 10")
    case True
    then show ?thesis by (subst digits.simps) (simp add: is_digit_def)
  next
    case False
    have "n mod 10 < 10" by simp
    then have "is_digit (48 + n mod 10)" unfolding is_digit_def by linarith
    with False 1 show ?thesis by (subst digits.simps) simp
  qed
qed

lemma digits_value_snoc: "digits_value (ds @ [d]) = 10 * digits_value ds + (d - 48)"
  by (simp add: digits_value_def)

lemma digits_value_digits: "digits_value (digits n) = n"
proof (induction n rule: digits.induct)
  case (1 n)
  show ?case
  proof (cases "n < 10")
    case True
    then show ?thesis by (subst digits.simps) (simp add: digits_value_def)
  next
    case False
    with 1 show ?thesis by (subst digits.simps) (simp add: digits_value_snoc)
  qed
qed

lemma digits_length: "n < 10 ^ w \<Longrightarrow> 0 < w \<Longrightarrow> length (digits n) \<le> w"
proof (induction n arbitrary: w rule: digits.induct)
  case (1 n)
  show ?case
  proof (cases "n < 10")
    case True
    with 1(3) show ?thesis by (subst digits.simps) simp
  next
    case False
    from 1(3) obtain v where w: "w = Suc v" by (cases w) auto
    from False 1(2) w have v: "0 < v" by (cases v) auto
    from 1(2) w have "n div 10 < 10 ^ v" by (simp add: less_mult_imp_div_less)
    with 1(1) False v have "length (digits (n div 10)) \<le> v" by simp
    with False w show ?thesis by (subst digits.simps) simp
  qed
qed

lemma digits_value_zeros: "digits_value (replicate k 48 @ ds) = digits_value ds"
proof -
  have "foldl (\<lambda>a d. 10 * a + (d - 48)) 0 (replicate k (48::nat)) = 0"
    by (induction k) simp_all
  then show ?thesis by (simp add: digits_value_def)
qed

lemma zpad_length: "n < 10 ^ w \<Longrightarrow> 0 < w \<Longrightarrow> length (zpad w n) = w"
  using digits_length [of n w] by (simp add: zpad_def)

lemma zpad_is_digit: "list_all is_digit (zpad w n)"
  using digits_is_digit [of n] by (auto simp add: zpad_def list_all_iff is_digit_def)

lemma zpad_value: "digits_value (zpad w n) = n"
  by (simp add: zpad_def digits_value_zeros digits_value_digits)

lemma take_digits_zpad:
  "n < 10 ^ w \<Longrightarrow> 0 < w \<Longrightarrow> take_digits w (zpad w n @ rest) = Some (n, rest)"
  by (simp add: take_digits_def zpad_length zpad_is_digit zpad_value)

lemma expect_Cons: "expect c (x # rest) = (if x = c then Some rest else None)"
  by (simp add: expect_def)

subsection \<open>The time stamp\<close>

lemma fromisoformat_isoformat:
  assumes "valid_datetime t"
  shows "fromisoformat (isoformat t) = Some t"
proof -
  from assms have b: "year t < 10 ^ 4" "month t < 10 ^ 2" "day t < 10 ^ 2" "hour t < 10 ^ 2"
    "minute t < 10 ^ 2" "second t < 10 ^ 2" "microsecond t < 10 ^ 6"
    by (simp_all add: valid_datetime_def)
  show ?thesis
  proof (cases "microsecond t = 0")
    case True
    with b show ?thesis
      by (simp add: fromisoformat_def isoformat_def isoformat_sep_def take_digits_zpad
          expect_Cons ascii_def)
  next
    case False
    with b show ?thesis
      by (simp add: fromisoformat_def isoformat_def isoformat_sep_def take_digits_zpad
          expect_Cons ascii_def)
  qed
qed

subsection \<open>String literals\<close>

lemma is_ascii_append: "is_ascii (xs @ ys) = (is_ascii xs \<and> is_ascii ys)"
  by (simp add: is_ascii_def)

lemma is_digit_plain: "is_digit c \<Longrightarrow> plain c"
  by (simp add: is_digit_def plain_def)

lemma zpad_plain: "list_all plain (zpad w n)"
  using zpad_is_digit [of w n] by (auto simp add: list_all_iff is_digit_plain)

lemma isoformat_plain: "list_all plain (isoformat t)"
  by (simp add: isoformat_def isoformat_sep_def zpad_plain ascii_def) (simp add: plain_def)

lemma plain_is_ascii: "list_all plain s \<Longrightarrow> is_ascii s"
  by (auto simp add: is_ascii_def list_all_iff plain_def)

lemma escape_cp_plain: "plain c \<Longrightarrow> escape_cp c = [c]"
  by (simp add: plain_def escape_cp_def)

lemma concat_escape_plain: "list_all plain s \<Longrightarrow> concat (map escape_cp s) = s"
  by (induction s) (simp_all add: escape_cp_plain)

lemma scan_string_plain:
  "list_all plain s \<Longrightarrow> scan_string (s @ 34 # rest) = Some (s, rest)"
  by (induction s) (auto simp add: plain_def)

lemma join_surrogates_plain: "list_all plain s \<Longrightarrow> join_surrogates s = s"
  by (induction s rule: join_surrogates.induct) (auto simp add: plain_def)

subsection \<open>The line of the record\<close>

lemma json_formatter_hello: "json_formatter (hello_record t) = Inr (hello_line t)"
  by (simp add: json_formatter_def hello_record_def hello_line_def encode_basestring_ascii_def
      concat_escape_plain [OF isoformat_plain] hello_def escape_cp_def u_escape_def
      hexdigit_def repr_int_def digits.simps [of 4] ascii_def)

lemma is_ascii_hello_line: "is_ascii (hello_line t)"
  by (simp add: hello_line_def is_ascii_append plain_is_ascii [OF isoformat_plain])
     (simp add: is_ascii_def ascii_def)

lemma json_loads_hello_line: "json_loads_record (hello_line t) = Some (isoformat t, 4, hello)"
  by (simp add: hello_line_def json_loads_record_def json_key_def json_string_def expect_Cons
      expect_str_def ascii_def scan_string_plain [OF isoformat_plain]
      join_surrogates_plain [OF isoformat_plain] json_int_def is_digit_def digits_value_def
      hex4_value_def hex_value_def hello_def unescape_def)

text \<open>
  C8. For the record with the message \<open>"h\<close>e-acute\<open>llo"\<close>, the severity \<open>Info\<close> and any
  time stamp \<open>t\<close> that a \<open>datetime\<close> can hold, \<open>json_formatter\<close> returns the line
  \<open>hello_line t\<close>, an object with the ISO text of \<open>t\<close>, the level 4 and the message.
  Every code point of the line is ASCII: the e-acute is written as the six characters
  of its escape, a backslash and \<open>u00e9\<close>. The reader turns the line back into the
  record it came from: the same message, the same severity and the same time stamp,
  down to the microsecond.
\<close>

theorem machine_format_round_trip:
  assumes "valid_datetime t"
  shows "json_formatter (hello_record t) = Inr (hello_line t)
       \<and> is_ascii (hello_line t)
       \<and> parse_json_line (hello_line t) = Some (hello_record t)"
proof -
  have "parse_json_line (hello_line t) = Some (hello_record t)"
    by (simp add: parse_json_line_def json_loads_hello_line fromisoformat_isoformat [OF assms]
        Level_of_value_def hello_record_def)
  then show ?thesis
    by (simp add: json_formatter_hello is_ascii_hello_line)
qed

theorem machine_format_round_trip_witness:
  "valid_datetime t_example
   \<and> json_formatter (hello_record t_example) = Inr (hello_line t_example)
   \<and> is_ascii (hello_line t_example)
   \<and> parse_json_line (hello_line t_example) = Some (hello_record t_example)"
proof -
  have v: "valid_datetime t_example"
    by (simp add: valid_datetime_def t_example_def)
  from machine_format_round_trip [OF v] v show ?thesis by simp
qed


end
